theory Spec2Isabelle
  imports Main
begin

section \<open>JavaScript values\<close>

text \<open>
  A value obtained from \<^verbatim>\<open>response.json()\<close> or handed to the facade by a page script.
  A number is held as the text that \<^verbatim>\<open>String(n)\<close> prints for it, an object as the list
  of its own properties in enumeration order. \<^verbatim>\<open>undefined\<close> is \<open>None\<close> of
  \<open>json option\<close>.
\<close>

datatype json =
    JNull
  | JBool bool
  | JNum string
  | JStr string
  | JArr "json list"
  | JObj "(string \<times> json) list"

text \<open>
  What a rejected operation carries: \<open>Error m\<close> is \<^verbatim>\<open>new Error(m)\<close> thrown by the
  scripts themselves, \<open>TypeError\<close> is the read of a property of \<^verbatim>\<open>null\<close> or the
  conversion to a string of a value that has none, and
  \<open>Failure d\<close> is a rejection raised by the platform (\<^verbatim>\<open>fetch\<close>,
  \<^verbatim>\<open>response.json()\<close>, \<^verbatim>\<open>response.text()\<close>).
\<close>

datatype js_error = Error string | TypeError | Failure string

text \<open>Truthiness, as \<^verbatim>\<open>if (v)\<close>, \<^verbatim>\<open>!v\<close> and \<^verbatim>\<open>v || w\<close> test it.\<close>

fun truthy :: "json \<Rightarrow> bool" where
  "truthy JNull = False"
| "truthy (JBool b) = b"
| "truthy (JNum s) = (s \<noteq> ''0'' \<and> s \<noteq> ''NaN'')"
| "truthy (JStr s) = (s \<noteq> [])"
| "truthy (JArr xs) = True"
| "truthy (JObj ps) = True"

fun truthy_opt :: "json option \<Rightarrow> bool" where
  "truthy_opt None = False"
| "truthy_opt (Some v) = truthy v"

text \<open>A string or \<^verbatim>\<open>null\<close>, as \<^verbatim>\<open>localStorage.getItem\<close> and
  \<^verbatim>\<open>headers.get\<close> return it.\<close>

fun truthy_str :: "string option \<Rightarrow> bool" where
  "truthy_str None = False"
| "truthy_str (Some s) = (s \<noteq> [])"

fun join_comma :: "string list \<Rightarrow> string" where
  "join_comma [] = []"
| "join_comma [s] = s"
| "join_comma (s # t # ss) = s @ '','' @ join_comma (t # ss)"

text \<open>The first error of a list of outcomes, or all the results.\<close>

fun collect :: "(js_error + 'a) list \<Rightarrow> js_error + 'a list" where
  "collect [] = Inr []"
| "collect (Inl e # rs) = Inl e"
| "collect (Inr x # rs) = (case collect rs of Inl e \<Rightarrow> Inl e | Inr xs \<Rightarrow> Inr (x # xs))"

text \<open>
  The string conversion applied by \<^verbatim>\<open>new Error(v)\<close> and
  \<^verbatim>\<open>localStorage.setItem(k, v)\<close>. An object is converted by its
  \<^verbatim>\<open>toString\<close> method: a parsed object that has a property of that name of its own
  hides the inherited method behind a value that cannot be called, and the conversion
  throws; any other object gives \<^verbatim>\<open>[object Object]\<close>. An array joins the
  conversions of its elements, \<^verbatim>\<open>null\<close> counting as the empty string.
\<close>

fun to_string :: "json \<Rightarrow> js_error + string" where
  "to_string JNull = Inr ''null''"
| "to_string (JBool b) = Inr (if b then ''true'' else ''false'')"
| "to_string (JNum s) = Inr s"
| "to_string (JStr s) = Inr s"
| "to_string (JArr xs) =
     (case collect (map (\<lambda>x. if x = JNull then Inr [] else to_string x) xs) of
        Inl e \<Rightarrow> Inl e
      | Inr ss \<Rightarrow> Inr (join_comma ss))"
| "to_string (JObj ps) =
     (if ''toString'' \<in> set (map fst ps) then Inl TypeError else Inr ''[object Object]'')"

text \<open>What \<^verbatim>\<open>throw new Error(v)\<close> raises: the error with the string of \<open>v\<close> as its
  message, or the exception of the conversion.\<close>

definition new_Error :: "json \<Rightarrow> js_error" where
  "new_Error v = (case to_string v of Inl e \<Rightarrow> e | Inr s \<Rightarrow> Error s)"

text \<open>
  The read \<^verbatim>\<open>v.k\<close> for the property names the scripts use (\<^verbatim>\<open>message\<close>,
  \<^verbatim>\<open>error\<close>, \<^verbatim>\<open>msg\<close>, \<^verbatim>\<open>token\<close>, \<^verbatim>\<open>user\<close>), none of which a built-in
  prototype defines: it throws on \<^verbatim>\<open>null\<close>, looks the name up in an object and is
  \<^verbatim>\<open>undefined\<close> on every other value.
\<close>

fun get_prop :: "json \<Rightarrow> string \<Rightarrow> js_error + json option" where
  "get_prop JNull k = Inl TypeError"
| "get_prop (JObj ps) k = Inr (map_of ps k)"
| "get_prop v k = Inr None"

text \<open>\<^verbatim>\<open>s.endsWith(p)\<close> and \<^verbatim>\<open>s.includes(p)\<close> on strings.\<close>

definition endsWith :: "string \<Rightarrow> string \<Rightarrow> bool" where
  "endsWith s p = (length p \<le> length s \<and> drop (length s - length p) s = p)"

fun includes_str :: "string \<Rightarrow> string \<Rightarrow> bool" where
  "includes_str [] p = (p = [])"
| "includes_str (c # cs) p = (take (length p) (c # cs) = p \<or> includes_str cs p)"

text \<open>The decimal text of a number, as a template literal prints \<^verbatim>\<open>response.status\<close>.\<close>

function string_of_nat :: "nat \<Rightarrow> string" where
  "string_of_nat n =
     (if n < 10 then [''0123456789'' ! n]
      else string_of_nat (n div 10) @ [''0123456789'' ! (n mod 10)])"
  by pat_completeness auto
termination
  by (relation "measure id") auto

declare string_of_nat.simps [simp del]

section \<open>The browser\<close>

text \<open>
  What \<^verbatim>\<open>fetch\<close> is called with, and what it resolves to. \<open>json_body\<close> and
  \<open>text_body\<close> are the outcomes of \<^verbatim>\<open>response.json()\<close> and
  \<^verbatim>\<open>response.text()\<close>, either of which can reject.
\<close>

record http_request =
  req_url :: string
  req_method :: "string option"
  req_headers :: "string \<rightharpoonup> string"
  req_body :: "string option"

record response =
  status :: nat
  content_type :: "string option"
  json_body :: "js_error + json"
  text_body :: "js_error + string"

text \<open>\<^verbatim>\<open>response.ok\<close>: the status is in the range 200 to 299.\<close>

definition ok :: "response \<Rightarrow> bool" where
  "ok r = (200 \<le> status r \<and> status r \<le> 299)"

text \<open>
  The state the scripts read and write: \<^verbatim>\<open>localStorage\<close>,
  \<^verbatim>\<open>window.location.pathname\<close>, the navigation requested by the last assignment to
  \<^verbatim>\<open>window.location.href\<close> (\<open>None\<close> when there was none), and the calls of
  \<^verbatim>\<open>fetch\<close> made so far, the latest last.
\<close>

record browser =
  localStorage :: "string \<rightharpoonup> string"
  pathname :: string
  href :: "string option"
  fetched :: "http_request list"

text \<open>The platform functions: the network behind \<^verbatim>\<open>fetch\<close>,
  \<^verbatim>\<open>JSON.stringify\<close>, which the scripts call, and \<^verbatim>\<open>JSON.parse\<close>, which
  \<^verbatim>\<open>response.json()\<close> applies to the text of a body.\<close>

record platform =
  fetch :: "http_request \<Rightarrow> js_error + response"
  JSON_stringify :: "json \<Rightarrow> string"
  JSON_parse :: "string \<Rightarrow> js_error + json"

text \<open>The three storage calls. The storage is taken to be available and to have room, so
  that none of them fails.\<close>

definition getItem :: "string \<Rightarrow> browser \<Rightarrow> string option" where
  "getItem k st = localStorage st k"

definition setItem :: "string \<Rightarrow> string \<Rightarrow> browser \<Rightarrow> browser" where
  "setItem k v st = st\<lparr>localStorage := (localStorage st)(k \<mapsto> v)\<rparr>"

definition removeItem :: "string \<Rightarrow> browser \<Rightarrow> browser" where
  "removeItem k st = st\<lparr>localStorage := (localStorage st)(k := None)\<rparr>"

section \<open>The session guard (js/auth-guard.js)\<close>

definition publicPages :: "string list" where
  "publicPages = [''/login.html'', ''/register.html'', ''/index.html'', ''/'']"

definition isPublicPage :: "string \<Rightarrow> bool" where
  "isPublicPage currentPath =
     list_ex (\<lambda>page. endsWith currentPath page \<or> currentPath = page) publicPages"

text \<open>
  The guard script. \<open>Inl\<close> is the exception that ends the script, \<open>Inr ()\<close> is reaching
  its end; the console output is left out.
\<close>

definition auth_guard :: "browser \<Rightarrow> (js_error + unit) \<times> browser" where
  "auth_guard st =
     (let token = getItem ''token'' st;
          currentPath = pathname st
      in if \<not> truthy_str token \<and> \<not> isPublicPage currentPath
         then (Inl (Error ''Authentication required''), st\<lparr>href := Some ''/pages/login.html''\<rparr>)
         else (Inr (), st))"

text \<open>The guard of the module variant (unnamed/part_001, \<^verbatim>\<open>requireAuth\<close>), which tests
  the suffix only and returns a flag instead of throwing.\<close>

definition requireAuth :: "browser \<Rightarrow> bool \<times> browser" where
  "requireAuth st =
     (let token = getItem ''token'' st;
          currentPath = pathname st;
          isPublic = list_ex (\<lambda>page. endsWith currentPath page) publicPages
      in if \<not> truthy_str token \<and> \<not> isPublic
         then (False, st\<lparr>href := Some ''/pages/login.html''\<rparr>)
         else (True, st))"

section \<open>The request gateway and the facade (js/api.js)\<close>

definition API_BASE_URL :: string where
  "API_BASE_URL = ''https://workbackend-egr6.onrender.com''"

subsection \<open>Token helpers\<close>

definition getToken :: "browser \<Rightarrow> string option" where
  "getToken st = getItem ''auth_token'' st"

definition setToken :: "json \<Rightarrow> browser \<Rightarrow> js_error + browser" where
  "setToken token st =
     (case to_string token of
        Inl e \<Rightarrow> Inl e
      | Inr s \<Rightarrow> Inr (setItem ''auth_token'' s st))"

definition removeToken :: "browser \<Rightarrow> browser" where
  "removeToken st = removeItem ''auth_token'' st"

definition setCurrentUser :: "platform \<Rightarrow> json \<Rightarrow> browser \<Rightarrow> browser" where
  "setCurrentUser env user st = setItem ''current_user'' (JSON_stringify env user) st"

definition removeCurrentUser :: "browser \<Rightarrow> browser" where
  "removeCurrentUser st = removeItem ''current_user'' st"

subsection \<open>The request handler\<close>

text \<open>The second argument of \<^verbatim>\<open>request\<close>; absent headers are the empty map.\<close>

record options =
  opt_method :: "string option"
  opt_body :: "string option"
  opt_headers :: "string \<rightharpoonup> string"

text \<open>
  Lines 35 to 50 of \<^verbatim>\<open>request\<close>: the call of \<^verbatim>\<open>fetch\<close> that is made. The
  caller's headers are spread over the content type, and the token, when there is one, is
  added last with the bearer prefix.
\<close>

definition fetch_call :: "string \<Rightarrow> options \<Rightarrow> browser \<Rightarrow> http_request" where
  "fetch_call endpoint opts st =
     (let url = API_BASE_URL @ endpoint;
          token = getToken st;
          headers = [''Content-Type'' \<mapsto> ''application/json''] ++ opt_headers opts;
          headers' = (case token of
                        None \<Rightarrow> headers
                      | Some t \<Rightarrow> if t \<noteq> [] then headers(''Authorization'' \<mapsto> ''Bearer '' @ t)
                                  else headers)
      in \<lparr>req_url = url, req_method = opt_method opts, req_headers = headers',
          req_body = opt_body opts\<rparr>)"

text \<open>Line 54: the test on the response's content type.\<close>

definition declares_json :: "response \<Rightarrow> bool" where
  "declares_json r =
     (case content_type r of
        None \<Rightarrow> False
      | Some contentType \<Rightarrow> contentType \<noteq> [] \<and> includes_str contentType ''application/json'')"

text \<open>Lines 52 to 59: the body, parsed or wrapped.\<close>

definition read_body :: "response \<Rightarrow> js_error + json" where
  "read_body r =
     (if declares_json r then json_body r
      else (case text_body r of
              Inl e \<Rightarrow> Inl e
            | Inr text \<Rightarrow> Inr (JObj [(''message'', JStr text)])))"

text \<open>Lines 62 to 68: what a 401 does to the browser.\<close>

definition on_unauthorized :: "browser \<Rightarrow> browser" where
  "on_unauthorized st =
     (let st1 = removeToken st;
          st2 = removeCurrentUser st1
      in if pathname st2 \<noteq> ''/login.html'' \<and> pathname st2 \<noteq> ''/register.html''
         then st2\<lparr>href := Some ''/pages/login.html''\<rparr>
         else st2)"

text \<open>
  Line 69: the exception of a response that is not ok. The operands of \<^verbatim>\<open>||\<close> are
  read from left to right, and the first read throws when the body is \<^verbatim>\<open>null\<close>.
\<close>

definition thrown :: "response \<Rightarrow> json \<Rightarrow> js_error" where
  "thrown r data =
     (case get_prop data ''message'' of
        Inl e \<Rightarrow> e
      | Inr message \<Rightarrow>
          if truthy_opt message then new_Error (the message)
          else (case get_prop data ''error'' of
                  Inl e \<Rightarrow> e
                | Inr err \<Rightarrow>
                    if truthy_opt err then new_Error (the err)
                    else new_Error (JStr (''HTTP error! status: '' @ string_of_nat (status r)))))"

text \<open>
  \<^verbatim>\<open>apiService.request\<close>. The \<^verbatim>\<open>catch\<close> block logs and throws the same error
  again, so every exception of the body reaches the caller as it is.
\<close>

definition request ::
  "platform \<Rightarrow> string \<Rightarrow> options \<Rightarrow> browser \<Rightarrow> (js_error + json) \<times> browser" where
  "request env endpoint opts st =
     (let req = fetch_call endpoint opts st;
          st1 = st\<lparr>fetched := fetched st @ [req]\<rparr>
      in case fetch env req of
           Inl e \<Rightarrow> (Inl e, st1)
         | Inr r \<Rightarrow>
             (case read_body r of
                Inl e \<Rightarrow> (Inl e, st1)
              | Inr data \<Rightarrow>
                  if \<not> ok r
                  then (let st2 = (if status r = 401 then on_unauthorized st1 else st1)
                        in (Inl (thrown r data), st2))
                  else (Inr data, st1)))"

subsection \<open>Authentication operations\<close>

text \<open>Lines 87 to 91 of \<^verbatim>\<open>register\<close>, which are lines 99 to 103 of \<^verbatim>\<open>login\<close>
  word for word: keep the token and the user of a response.\<close>

definition keep_session ::
  "platform \<Rightarrow> json \<Rightarrow> browser \<Rightarrow> (js_error + json) \<times> browser" where
  "keep_session env resp st =
     (case get_prop resp ''token'' of
        Inl e \<Rightarrow> (Inl e, st)
      | Inr token \<Rightarrow>
          if truthy_opt token
          then (case setToken (the token) st of
                  Inl e \<Rightarrow> (Inl e, st)
                | Inr st1 \<Rightarrow>
                    (case get_prop resp ''user'' of
                       Inl e \<Rightarrow> (Inl e, st1)
                     | Inr user \<Rightarrow>
                         if truthy_opt user then (Inr resp, setCurrentUser env (the user) st1)
                         else (Inr resp, st1)))
          else (Inr resp, st))"

definition register ::
  "platform \<Rightarrow> json \<Rightarrow> browser \<Rightarrow> (js_error + json) \<times> browser" where
  "register env userData st =
     (case request env ''/api/auth/register''
             \<lparr>opt_method = Some ''POST'', opt_body = Some (JSON_stringify env userData),
              opt_headers = Map.empty\<rparr> st of
        (Inl e, st1) \<Rightarrow> (Inl e, st1)
      | (Inr resp, st1) \<Rightarrow> keep_session env resp st1)"

definition login ::
  "platform \<Rightarrow> json \<Rightarrow> browser \<Rightarrow> (js_error + json) \<times> browser" where
  "login env credentials st =
     (case request env ''/api/auth/login''
             \<lparr>opt_method = Some ''POST'', opt_body = Some (JSON_stringify env credentials),
              opt_headers = Map.empty\<rparr> st of
        (Inl e, st1) \<Rightarrow> (Inl e, st1)
      | (Inr resp, st1) \<Rightarrow> keep_session env resp st1)"

definition getProfile :: "platform \<Rightarrow> browser \<Rightarrow> (js_error + json) \<times> browser" where
  "getProfile env st =
     (case request env ''/api/auth/me''
             \<lparr>opt_method = Some ''GET'', opt_body = None, opt_headers = Map.empty\<rparr> st of
        (Inl e, st1) \<Rightarrow> (Inl e, st1)
      | (Inr resp, st1) \<Rightarrow>
          (case get_prop resp ''user'' of
             Inl e \<Rightarrow> (Inl e, st1)
           | Inr u \<Rightarrow>
               if truthy_opt u \<or> truthy resp
               then (let user = (if truthy_opt u then the u else resp)
                     in (Inr resp, setCurrentUser env user st1))
               else (Inr resp, st1)))"

definition logout :: "browser \<Rightarrow> browser" where
  "logout st =
     (let st1 = removeToken st;
          st2 = removeCurrentUser st1
      in st2\<lparr>href := Some ''/pages/login.html''\<rparr>)"

section \<open>The gateway in its other forms (unnamed/part_001, unnamed/part_002)\<close>

text \<open>
  Two more files hold the gateway: unnamed/part_001, where the operations are methods of
  an \<^verbatim>\<open>apiService\<close> object, and unnamed/part_002, where they are exported functions.
  Both keep the token under \<^verbatim>\<open>token\<close>, send it without a prefix, read every body
  with \<^verbatim>\<open>res.json()\<close>, and on a 401 clear the token and request the navigation on
  every page. Their \<^verbatim>\<open>request\<close> functions are the same text but for the error of a
  response that is not ok.
\<close>

definition clearToken :: "browser \<Rightarrow> browser" where
  "clearToken st = removeItem ''token'' st"

text \<open>\<^verbatim>\<open>setToken\<close> of both files, under its key.\<close>

definition setToken_token :: "json \<Rightarrow> browser \<Rightarrow> js_error + browser" where
  "setToken_token token st =
     (case to_string token of
        Inl e \<Rightarrow> Inl e
      | Inr s \<Rightarrow> Inr (setItem ''token'' s st))"

text \<open>The call of \<^verbatim>\<open>fetch\<close> that \<^verbatim>\<open>request\<close> makes in both files.\<close>

definition fetch_call_module :: "string \<Rightarrow> options \<Rightarrow> browser \<Rightarrow> http_request" where
  "fetch_call_module endpoint opts st =
     (let token = getItem ''token'' st;
          headers = [''Content-Type'' \<mapsto> ''application/json''] ++ opt_headers opts;
          headers' = (case token of
                        None \<Rightarrow> headers
                      | Some t \<Rightarrow> if t \<noteq> [] then headers(''Authorization'' \<mapsto> t) else headers)
      in \<lparr>req_url = API_BASE_URL @ endpoint, req_method = opt_method opts,
          req_headers = headers', req_body = opt_body opts\<rparr>)"

text \<open>unnamed/part_001, line 67:
  \<^verbatim>\<open>throw new Error(data.msg || data.message || "API Error")\<close>.\<close>

definition thrown_module :: "json \<Rightarrow> js_error" where
  "thrown_module data =
     (case get_prop data ''msg'' of
        Inl e \<Rightarrow> e
      | Inr msg \<Rightarrow>
          if truthy_opt msg then new_Error (the msg)
          else (case get_prop data ''message'' of
                  Inl e \<Rightarrow> e
                | Inr message \<Rightarrow>
                    if truthy_opt message then new_Error (the message)
                    else new_Error (JStr ''API Error'')))"

text \<open>unnamed/part_002, line 42: \<^verbatim>\<open>throw new Error(data.msg || "API Error")\<close>.\<close>

definition thrown_exported :: "json \<Rightarrow> js_error" where
  "thrown_exported data =
     (case get_prop data ''msg'' of
        Inl e \<Rightarrow> e
      | Inr msg \<Rightarrow>
          if truthy_opt msg then new_Error (the msg)
          else new_Error (JStr ''API Error''))"

text \<open>The text that the two \<^verbatim>\<open>request\<close> functions share, with the error of a response
  that is not ok as \<open>thrown_by\<close>.\<close>

definition request_shared ::
  "(json \<Rightarrow> js_error) \<Rightarrow> platform \<Rightarrow> string \<Rightarrow> options \<Rightarrow> browser \<Rightarrow>
   (js_error + json) \<times> browser" where
  "request_shared thrown_by env endpoint opts st =
     (let req = fetch_call_module endpoint opts st;
          st1 = st\<lparr>fetched := fetched st @ [req]\<rparr>
      in case fetch env req of
           Inl e \<Rightarrow> (Inl e, st1)
         | Inr res \<Rightarrow>
             (case json_body res of
                Inl e \<Rightarrow> (Inl e, st1)
              | Inr data \<Rightarrow>
                  if \<not> ok res
                  then (let st2 = (if status res = 401
                                   then (clearToken st1)\<lparr>href := Some ''/pages/login.html''\<rparr>
                                   else st1)
                        in (Inl (thrown_by data), st2))
                  else (Inr data, st1)))"

text \<open>\<^verbatim>\<open>request\<close> of unnamed/part_001 and of unnamed/part_002.\<close>

definition request_module ::
  "platform \<Rightarrow> string \<Rightarrow> options \<Rightarrow> browser \<Rightarrow> (js_error + json) \<times> browser" where
  "request_module = request_shared thrown_module"

definition request_exported ::
  "platform \<Rightarrow> string \<Rightarrow> options \<Rightarrow> browser \<Rightarrow> (js_error + json) \<times> browser" where
  "request_exported = request_shared thrown_exported"

text \<open>\<^verbatim>\<open>auth.logout\<close> of unnamed/part_001, lines 105 to 108.\<close>

definition logout_module :: "browser \<Rightarrow> browser" where
  "logout_module st = (clearToken st)\<lparr>href := Some ''/pages/login.html''\<rparr>"

text \<open>\<^verbatim>\<open>registerUser\<close>, \<^verbatim>\<open>loginUser\<close> and \<^verbatim>\<open>getMe\<close> of unnamed/part_002,
  lines 53 to 77.\<close>

definition registerUser ::
  "platform \<Rightarrow> json \<Rightarrow> browser \<Rightarrow> (js_error + json) \<times> browser" where
  "registerUser env payload st =
     request_exported env ''/api/auth/register''
       \<lparr>opt_method = Some ''POST'', opt_body = Some (JSON_stringify env payload),
        opt_headers = Map.empty\<rparr> st"

definition loginUser ::
  "platform \<Rightarrow> json \<Rightarrow> browser \<Rightarrow> (js_error + json) \<times> browser" where
  "loginUser env payload st =
     (case request_exported env ''/api/auth/login''
             \<lparr>opt_method = Some ''POST'', opt_body = Some (JSON_stringify env payload),
              opt_headers = Map.empty\<rparr> st of
        (Inl e, st1) \<Rightarrow> (Inl e, st1)
      | (Inr res, st1) \<Rightarrow>
          (case get_prop res ''token'' of
             Inl e \<Rightarrow> (Inl e, st1)
           | Inr token \<Rightarrow>
               if truthy_opt token
               then (case setToken_token (the token) st1 of
                       Inl e \<Rightarrow> (Inl e, st1)
                     | Inr st2 \<Rightarrow> (Inr res, st2))
               else (Inr res, st1)))"

definition getMe :: "platform \<Rightarrow> browser \<Rightarrow> (js_error + json) \<times> browser" where
  "getMe env st =
     request_exported env ''/api/auth/me''
       \<lparr>opt_method = None, opt_body = None, opt_headers = Map.empty\<rparr> st"

section \<open>A protected page\<close>


section \<open>Example sessions\<close>


definition login_visit :: browser where
  "login_visit =
     \<lparr>localStorage = Map.empty, pathname = ''/pages/login.html'', href = None, fetched = []\<rparr>"

definition directory_visit :: browser where
  "directory_visit =
     \<lparr>localStorage = Map.empty, pathname = ''/pages/'', href = None, fetched = []\<rparr>"

text \<open>
  A browser on the page at \<open>path\<close> that is signed in through js/api.js, one that is
  signed in under the key \<^verbatim>\<open>token\<close>, and a platform whose network answers every
  call with the response \<open>r\<close>. The examples serialise and parse the empty object only:
  \<^verbatim>\<open>JSON.stringify\<close> gives \<^verbatim>\<open>{}\<close> for it and \<^verbatim>\<open>JSON.parse\<close> gives it
  back.
\<close>

definition signed_in :: "string \<Rightarrow> browser" where
  "signed_in path =
     \<lparr>localStorage = [''auth_token'' \<mapsto> ''abc'', ''current_user'' \<mapsto> ''{}''],
      pathname = path, href = None, fetched = []\<rparr>"

definition signed_in_token :: "string \<Rightarrow> browser" where
  "signed_in_token path =
     \<lparr>localStorage = [''token'' \<mapsto> ''abc'', ''current_user'' \<mapsto> ''{}''],
      pathname = path, href = None, fetched = []\<rparr>"

definition parse_empty_object :: "string \<Rightarrow> js_error + json" where
  "parse_empty_object s = (if s = ''{}'' then Inr (JObj []) else Inl (Failure ''SyntaxError''))"

definition server :: "response \<Rightarrow> platform" where
  "server r =
     \<lparr>fetch = (\<lambda>req. Inr r), JSON_stringify = (\<lambda>v. ''{}''), JSON_parse = parse_empty_object\<rparr>"

text \<open>A server that answers every call with status 200 and the body it was sent.\<close>

definition echo :: platform where
  "echo =
     \<lparr>fetch = (\<lambda>req. Inr \<lparr>status = 200, content_type = Some ''application/json'',
                           json_body = (case req_body req of
                                          None \<Rightarrow> Inl (Failure ''SyntaxError'')
                                        | Some b \<Rightarrow> parse_empty_object b),
                           text_body = (case req_body req of
                                          None \<Rightarrow> Inr []
                                        | Some b \<Rightarrow> Inr b)\<rparr>),
      JSON_stringify = (\<lambda>v. ''{}''), JSON_parse = parse_empty_object\<rparr>"

definition post_opts :: "string \<Rightarrow> options" where
  "post_opts b = \<lparr>opt_method = Some ''POST'', opt_body = Some b, opt_headers = Map.empty\<rparr>"

definition get_opts :: options where
  "get_opts = \<lparr>opt_method = Some ''GET'', opt_body = None, opt_headers = Map.empty\<rparr>"

text \<open>A reply with a JSON body and a reply with a text body; the gateway reads each body in
  one way only, and the other reading is what the platform would give.\<close>

definition json_response :: "nat \<Rightarrow> json \<Rightarrow> response" where
  "json_response code v =
     \<lparr>status = code, content_type = Some ''application/json; charset=utf-8'',
      json_body = Inr v, text_body = Inr []\<rparr>"

definition text_response :: "nat \<Rightarrow> string \<Rightarrow> response" where
  "text_response code t =
     \<lparr>status = code, content_type = Some ''text/plain'',
      json_body = Inl (Failure ''SyntaxError''), text_body = Inr t\<rparr>"

text \<open>A 401 that announces JSON and has an empty body, so that \<^verbatim>\<open>response.json()\<close>
  rejects.\<close>

definition empty_unauthorized :: response where
  "empty_unauthorized =
     \<lparr>status = 401, content_type = Some ''application/json'',
      json_body = Inl (Failure ''SyntaxError''), text_body = Inr []\<rparr>"

text \<open>The answer to a login or registration: a token and a user, here the empty object.\<close>

definition session_response :: response where
  "session_response =
     json_response 200 (JObj [(''token'', JStr ''jwt''), (''user'', JObj [])])"

section \<open>Properties of the session guard\<close>

lemma endsWith_self: "endsWith p p"
  by (simp add: endsWith_def)

lemma publicPages_isPublicPage: "p \<in> set publicPages \<Longrightarrow> isPublicPage p"
  unfolding isPublicPage_def list_ex_iff by blast

lemma slash_isPublicPage: "endsWith p ''/'' \<Longrightarrow> isPublicPage p"
  by (simp add: isPublicPage_def publicPages_def)

lemma isPublicPage_suffix:
  "isPublicPage p = list_ex (\<lambda>page. endsWith p page) publicPages"
  unfolding isPublicPage_def list_ex_iff using endsWith_self by blast

lemma auth_guard_public: "isPublicPage (pathname st) \<Longrightarrow> auth_guard st = (Inr (), st)"
  by (simp add: auth_guard_def)

lemma requireAuth_public: "isPublicPage (pathname st) \<Longrightarrow> requireAuth st = (True, st)"
  by (simp add: requireAuth_def isPublicPage_suffix)

lemma dashboard_not_public: "\<not> isPublicPage ''/pages/dashboard.html''"
  by (simp add: isPublicPage_def publicPages_def endsWith_def)

lemma login_page_public: "isPublicPage ''/pages/login.html''"
  by (simp add: isPublicPage_def publicPages_def endsWith_def)



text \<open>
  C6: on every path of the public list, and on every path the guard matches against it, the
  guard lets the page continue and requests no navigation, whatever the storage holds. Both
  guards, the script and \<^verbatim>\<open>requireAuth\<close>, leave the browser as it was.
\<close>

theorem public_page_never_redirects:
  assumes "p \<in> set publicPages \<or> isPublicPage p" and "pathname st = p"
  shows "auth_guard st = (Inr (), st) \<and> requireAuth st = (True, st)"
proof -
  from assms have "isPublicPage (pathname st)"
    using publicPages_isPublicPage by blast
  then show ?thesis
    by (simp add: auth_guard_public requireAuth_public)
qed

theorem public_page_never_redirects_witness:
  "isPublicPage ''/pages/login.html'' \<and> pathname login_visit = ''/pages/login.html'' \<and>
   getItem ''token'' login_visit = None \<and>
   auth_guard login_visit = (Inr (), login_visit) \<and>
   requireAuth login_visit = (True, login_visit) \<and>
   ''/'' \<in> set publicPages \<and>
   auth_guard (signed_in ''/'') = (Inr (), signed_in ''/'')"
proof -
  have a: "''/pages/login.html'' \<in> set publicPages \<or> isPublicPage ''/pages/login.html''"
    by (simp add: login_page_public)
  have b: "pathname login_visit = ''/pages/login.html''"
    by (simp add: login_visit_def)
  have c: "''/'' \<in> set publicPages \<or> isPublicPage ''/''"
    by (simp add: publicPages_def)
  have d: "pathname (signed_in ''/'') = ''/''"
    by (simp add: signed_in_def)
  have e: "getItem ''token'' login_visit = None"
    by (simp add: login_visit_def getItem_def)
  have f: "''/'' \<in> set publicPages"
    by (simp add: publicPages_def)
  from public_page_never_redirects [OF a b] public_page_never_redirects [OF c d] b e f
    login_page_public
  show ?thesis by simp
qed

text \<open>
  C10: the list holds the entry \<^verbatim>\<open>/\<close> and the test is a suffix test, so every path
  that ends in a slash counts as public, and both guards let it pass without a token.
\<close>

theorem trailing_slash_is_public:
  assumes "endsWith p ''/''" and "pathname st = p"
  shows "isPublicPage p \<and> auth_guard st = (Inr (), st) \<and> requireAuth st = (True, st)"
proof -
  from assms have "isPublicPage (pathname st)"
    by (simp add: slash_isPublicPage)
  with assms show ?thesis
    by (simp add: auth_guard_public requireAuth_public)
qed

theorem trailing_slash_is_public_witness:
  "endsWith ''/pages/'' ''/'' \<and> getItem ''token'' directory_visit = None \<and>
   isPublicPage ''/pages/'' \<and>
   auth_guard directory_visit = (Inr (), directory_visit) \<and>
   requireAuth directory_visit = (True, directory_visit)"
proof -
  have a: "endsWith ''/pages/'' ''/''"
    by (simp add: endsWith_def)
  have b: "pathname directory_visit = ''/pages/''"
    by (simp add: directory_visit_def)
  have c: "getItem ''token'' directory_visit = None"
    by (simp add: directory_visit_def getItem_def)
  from trailing_slash_is_public [OF a b] a c show ?thesis by simp
qed

section \<open>Properties of the request gateway\<close>

lemma unauthorized_not_ok: "status r = 401 \<Longrightarrow> \<not> ok r"
  by (simp add: ok_def)

lemma fetched_request:
  "fetched (snd (request env endpoint opts st)) = fetched st @ [fetch_call endpoint opts st]"
  by (simp add: request_def Let_def on_unauthorized_def removeToken_def removeCurrentUser_def
      removeItem_def split: sum.splits)

lemma request_ok:
  assumes "fetch env (fetch_call endpoint opts st) = Inr r" and "ok r"
  shows "request env endpoint opts st =
           (read_body r, st\<lparr>fetched := fetched st @ [fetch_call endpoint opts st]\<rparr>)"
  using assms by (simp add: request_def Let_def split: sum.splits)

lemma request_unauthorized:
  assumes "fetch env (fetch_call endpoint opts st) = Inr r" and "status r = 401"
    and "read_body r = Inr data"
  shows "request env endpoint opts st =
           (Inl (thrown r data),
            on_unauthorized (st\<lparr>fetched := fetched st @ [fetch_call endpoint opts st]\<rparr>))"
  using assms by (simp add: request_def Let_def unauthorized_not_ok)

lemma request_failure:
  assumes "fetch env (fetch_call endpoint opts st) = Inr r" and "\<not> ok r"
    and "read_body r = Inr data"
  shows "fst (request env endpoint opts st) = Inl (thrown r data)"
  using assms by (simp add: request_def Let_def)

lemma request_not_ok:
  assumes "fetch env (fetch_call endpoint opts st) = Inr r" and "\<not> ok r"
  shows "\<exists>e. fst (request env endpoint opts st) = Inl e"
  using assms by (simp add: request_def Let_def split: sum.splits)

lemma on_unauthorized_storage:
  "getToken (on_unauthorized st) = None \<and> getItem ''current_user'' (on_unauthorized st) = None"
  by (simp add: on_unauthorized_def Let_def getToken_def getItem_def removeToken_def
      removeCurrentUser_def removeItem_def)

lemma on_unauthorized_href:
  "href (on_unauthorized st) =
     (if pathname st \<noteq> ''/login.html'' \<and> pathname st \<noteq> ''/register.html''
      then Some ''/pages/login.html'' else href st)"
  by (simp add: on_unauthorized_def Let_def removeToken_def removeCurrentUser_def removeItem_def)

lemma exact_pages_public: "isPublicPage ''/login.html''" "isPublicPage ''/register.html''"
  by (simp_all add: isPublicPage_def publicPages_def endsWith_def)

text \<open>The same for the text shared by unnamed/part_001 and unnamed/part_002.\<close>

lemma fetched_request_shared:
  "fetched (snd (request_shared thrown_by env endpoint opts st)) =
     fetched st @ [fetch_call_module endpoint opts st]"
  by (simp add: request_shared_def Let_def clearToken_def removeItem_def split: sum.splits)

lemma request_shared_ok:
  assumes "fetch env (fetch_call_module endpoint opts st) = Inr r" and "ok r"
  shows "request_shared thrown_by env endpoint opts st =
           (json_body r, st\<lparr>fetched := fetched st @ [fetch_call_module endpoint opts st]\<rparr>)"
  using assms by (simp add: request_shared_def Let_def split: sum.splits)

lemma request_shared_unauthorized:
  assumes "fetch env (fetch_call_module endpoint opts st) = Inr r" and "status r = 401"
    and "json_body r = Inr data"
  shows "request_shared thrown_by env endpoint opts st =
           (Inl (thrown_by data),
            (clearToken (st\<lparr>fetched := fetched st @ [fetch_call_module endpoint opts st]\<rparr>))
              \<lparr>href := Some ''/pages/login.html''\<rparr>)"
  using assms by (simp add: request_shared_def Let_def unauthorized_not_ok)

lemma request_shared_failure:
  assumes "fetch env (fetch_call_module endpoint opts st) = Inr r" and "\<not> ok r"
    and "json_body r = Inr data"
  shows "fst (request_shared thrown_by env endpoint opts st) = Inl (thrown_by data)"
  using assms by (simp add: request_shared_def Let_def)

lemma request_shared_not_ok:
  assumes "fetch env (fetch_call_module endpoint opts st) = Inr r" and "\<not> ok r"
  shows "\<exists>e. fst (request_shared thrown_by env endpoint opts st) = Inl e"
  using assms by (simp add: request_shared_def Let_def split: sum.splits)

lemma request_shared_current_user:
  "getItem ''current_user'' (snd (request_shared thrown_by env endpoint opts st)) =
     getItem ''current_user'' st"
  by (simp add: request_shared_def Let_def clearToken_def removeItem_def getItem_def
      split: sum.splits)

text \<open>The example replies and sessions.\<close>

lemma server_fetch: "fetch (server r) req = Inr r"
  by (simp add: server_def)

lemma read_body_json_response: "read_body (json_response code v) = Inr v"
  by (simp add: read_body_def declares_json_def json_response_def)

lemma json_body_json_response: "json_body (json_response code v) = Inr v"
  by (simp add: json_response_def)

lemma status_json_response: "status (json_response code v) = code"
  by (simp add: json_response_def)

lemma read_body_text_response:
  "read_body (text_response code t) = Inr (JObj [(''message'', JStr t)])"
  by (simp add: read_body_def declares_json_def text_response_def)

lemma signed_in_storage:
  "getToken (signed_in p) = Some ''abc''" "getItem ''current_user'' (signed_in p) = Some ''{}''"
  "pathname (signed_in p) = p" "href (signed_in p) = None"
  by (simp_all add: signed_in_def getToken_def getItem_def)

lemma signed_in_token_storage:
  "getItem ''token'' (signed_in_token p) = Some ''abc''"
  "getItem ''current_user'' (signed_in_token p) = Some ''{}''"
  "pathname (signed_in_token p) = p" "href (signed_in_token p) = None"
  by (simp_all add: signed_in_token_def getItem_def)

text \<open>
  C1, as the code has it: a response with status 401 never gives the caller a result. When
  its body could be read, the token is gone from the storage when the request operation
  ends: in js/api.js (body read as JSON where JSON is announced, as text otherwise) the entry
  \<^verbatim>\<open>auth_token\<close> and with it the cached user, in unnamed/part_001 (body read as JSON)
  the entry \<^verbatim>\<open>token\<close>, the cached user staying as it was.
\<close>

theorem unauthorized_clears_credentials:
  "(\<forall>r. fetch env (fetch_call endpoint opts st) = Inr r \<and> status r = 401 \<longrightarrow>
      (\<exists>e. fst (request env endpoint opts st) = Inl e) \<and>
      ((\<exists>data. read_body r = Inr data) \<longrightarrow>
         getToken (snd (request env endpoint opts st)) = None \<and>
         getItem ''current_user'' (snd (request env endpoint opts st)) = None)) \<and>
   (\<forall>r. fetch env (fetch_call_module endpoint opts st) = Inr r \<and> status r = 401 \<longrightarrow>
      (\<exists>e. fst (request_module env endpoint opts st) = Inl e) \<and>
      getItem ''current_user'' (snd (request_module env endpoint opts st)) =
        getItem ''current_user'' st \<and>
      ((\<exists>data. json_body r = Inr data) \<longrightarrow>
         getItem ''token'' (snd (request_module env endpoint opts st)) = None))"
proof (intro conjI allI impI; (elim conjE exE)?)
  fix r
  assume f: "fetch env (fetch_call endpoint opts st) = Inr r" and s: "status r = 401"
  show "\<exists>e. fst (request env endpoint opts st) = Inl e"
    using f s by (simp add: request_not_ok unauthorized_not_ok)
  fix data
  assume b: "read_body r = Inr data"
  show "getToken (snd (request env endpoint opts st)) = None"
    using request_unauthorized [OF f s b] by (simp add: on_unauthorized_storage)
  show "getItem ''current_user'' (snd (request env endpoint opts st)) = None"
    using request_unauthorized [OF f s b] by (simp add: on_unauthorized_storage)
next
  fix r
  assume f: "fetch env (fetch_call_module endpoint opts st) = Inr r" and s: "status r = 401"
  show "\<exists>e. fst (request_module env endpoint opts st) = Inl e"
    using f s by (simp add: request_module_def request_shared_not_ok unauthorized_not_ok)
  show "getItem ''current_user'' (snd (request_module env endpoint opts st)) =
      getItem ''current_user'' st"
    by (simp add: request_module_def request_shared_current_user)
  fix data
  assume b: "json_body r = Inr data"
  show "getItem ''token'' (snd (request_module env endpoint opts st)) = None"
    using request_shared_unauthorized [OF f s b]
    by (simp add: request_module_def clearToken_def removeItem_def getItem_def)
qed

theorem unauthorized_clears_credentials_witness:
  "status (json_response 401 (JObj [(''message'', JStr ''Token expired'')])) = 401 \<and>
   read_body (json_response 401 (JObj [(''message'', JStr ''Token expired'')])) =
     Inr (JObj [(''message'', JStr ''Token expired'')]) \<and>
   getToken (signed_in ''/pages/dashboard.html'') = Some ''abc'' \<and>
   (\<exists>e. fst (request (server (json_response 401 (JObj [(''message'', JStr ''Token expired'')])))
              ''/api/auth/me'' get_opts (signed_in ''/pages/dashboard.html'')) = Inl e) \<and>
   getToken (snd (request (server (json_response 401 (JObj [(''message'', JStr ''Token expired'')])))
              ''/api/auth/me'' get_opts (signed_in ''/pages/dashboard.html''))) = None \<and>
   getItem ''current_user''
     (snd (request (server (json_response 401 (JObj [(''message'', JStr ''Token expired'')])))
              ''/api/auth/me'' get_opts (signed_in ''/pages/dashboard.html''))) = None \<and>
   getItem ''token'' (signed_in_token ''/pages/dashboard.html'') = Some ''abc'' \<and>
   (\<exists>e. fst (request_module
                (server (json_response 401 (JObj [(''message'', JStr ''Token expired'')])))
                ''/api/auth/me'' get_opts (signed_in_token ''/pages/dashboard.html'')) = Inl e) \<and>
   getItem ''token''
     (snd (request_module (server (json_response 401 (JObj [(''message'', JStr ''Token expired'')])))
             ''/api/auth/me'' get_opts (signed_in_token ''/pages/dashboard.html''))) = None"
proof -
  let ?r = "json_response 401 (JObj [(''message'', JStr ''Token expired'')])"
  have s: "status ?r = 401"
    by (simp add: json_response_def)
  have b: "read_body ?r = Inr (JObj [(''message'', JStr ''Token expired'')])"
    by (rule read_body_json_response)
  have j: "json_body ?r = Inr (JObj [(''message'', JStr ''Token expired'')])"
    by (rule json_body_json_response)
  from unauthorized_clears_credentials [of "server ?r" "''/api/auth/me''" get_opts
      "signed_in ''/pages/dashboard.html''"]
    unauthorized_clears_credentials [of "server ?r" "''/api/auth/me''" get_opts
      "signed_in_token ''/pages/dashboard.html''"]
    s b j signed_in_storage(1) signed_in_token_storage(1)
  show ?thesis by (simp add: server_fetch)
qed

text \<open>
  The claim as written fails in js/api.js where the body of the 401 cannot be read: the
  exception of \<^verbatim>\<open>response.json()\<close> leaves the function before the status is looked
  at, and token and cached user stay. It fails in unnamed/part_001 for the cached user, which
  that file never touches.
\<close>

theorem unauthorized_unread_body_counterexample:
  "status empty_unauthorized = 401 \<and>
   fst (request (server empty_unauthorized) ''/api/auth/me'' get_opts
          (signed_in ''/pages/dashboard.html'')) = Inl (Failure ''SyntaxError'') \<and>
   getToken (snd (request (server empty_unauthorized) ''/api/auth/me'' get_opts
          (signed_in ''/pages/dashboard.html''))) = Some ''abc'' \<and>
   getItem ''current_user'' (snd (request (server empty_unauthorized) ''/api/auth/me'' get_opts
          (signed_in ''/pages/dashboard.html''))) = Some ''{}'' \<and>
   status (json_response 401 (JObj [])) = 401 \<and>
   getItem ''current_user''
     (snd (request_module (server (json_response 401 (JObj []))) ''/api/auth/me'' get_opts
             (signed_in_token ''/pages/dashboard.html''))) = Some ''{}''"
proof -
  have "getItem ''current_user''
      (snd (request_module (server (json_response 401 (JObj []))) ''/api/auth/me'' get_opts
              (signed_in_token ''/pages/dashboard.html''))) = Some ''{}''"
    by (simp add: request_module_def request_shared_current_user signed_in_token_storage)
  then show ?thesis
    by (simp add: request_def Let_def server_def empty_unauthorized_def read_body_def
        declares_json_def signed_in_def getToken_def getItem_def status_json_response)
qed

lemma fetch_call_body: "req_body (fetch_call endpoint opts st) = opt_body opts"
  by (simp add: fetch_call_def Let_def)

lemma fetch_call_module_body: "req_body (fetch_call_module endpoint opts st) = opt_body opts"
  by (simp add: fetch_call_module_def Let_def)

text \<open>
  C3, as the code has it: for a response with a status from 200 to 299 that announces JSON,
  the request operation returns the value that \<^verbatim>\<open>response.json()\<close> gave, as it is.
  So when the call carries the JSON text of an object, the server sends that text back, and
  \<^verbatim>\<open>JSON.parse\<close> takes the text back to the object, the caller gets the object it
  sent. For a response that does not announce JSON, js/api.js returns the object with the
  response text under \<^verbatim>\<open>message\<close>; unnamed/part_001 does not look at the content
  type, returns what \<^verbatim>\<open>res.json()\<close> gives and rejects with its error when the body is
  not JSON.
\<close>

theorem success_returns_body:
  "(\<forall>r. fetch env (fetch_call endpoint opts st) = Inr r \<and> ok r \<longrightarrow>
      (declares_json r \<longrightarrow>
         (\<forall>d. json_body r = Inr d \<longrightarrow> fst (request env endpoint opts st) = Inr d)) \<and>
      (\<not> declares_json r \<longrightarrow>
         (\<forall>t. text_body r = Inr t \<longrightarrow>
            fst (request env endpoint opts st) = Inr (JObj [(''message'', JStr t)]))) \<and>
      (\<forall>e0. declares_json r \<and> opt_body opts = Some (JSON_stringify env v) \<and>
            JSON_parse env (JSON_stringify env v) = Inr v \<and>
            json_body r = (case req_body (fetch_call endpoint opts st) of
                             None \<Rightarrow> Inl e0 | Some b \<Rightarrow> JSON_parse env b) \<longrightarrow>
            fst (request env endpoint opts st) = Inr v)) \<and>
   (\<forall>r. fetch env (fetch_call_module endpoint opts st) = Inr r \<and> ok r \<longrightarrow>
      (\<forall>d. json_body r = Inr d \<longrightarrow> fst (request_module env endpoint opts st) = Inr d) \<and>
      (\<forall>e. json_body r = Inl e \<longrightarrow> fst (request_module env endpoint opts st) = Inl e) \<and>
      (\<forall>e0. opt_body opts = Some (JSON_stringify env v) \<and>
            JSON_parse env (JSON_stringify env v) = Inr v \<and>
            json_body r = (case req_body (fetch_call_module endpoint opts st) of
                             None \<Rightarrow> Inl e0 | Some b \<Rightarrow> JSON_parse env b) \<longrightarrow>
            fst (request_module env endpoint opts st) = Inr v))"
proof (intro conjI allI impI; (elim conjE)?)
  fix r d
  assume "fetch env (fetch_call endpoint opts st) = Inr r" "ok r" "declares_json r"
    "json_body r = Inr d"
  then show "fst (request env endpoint opts st) = Inr d"
    by (simp add: request_ok read_body_def)
next
  fix r t
  assume "fetch env (fetch_call endpoint opts st) = Inr r" "ok r" "\<not> declares_json r"
    "text_body r = Inr t"
  then show "fst (request env endpoint opts st) = Inr (JObj [(''message'', JStr t)])"
    by (simp add: request_ok read_body_def)
next
  fix r e0
  assume "fetch env (fetch_call endpoint opts st) = Inr r" "ok r" "declares_json r"
    "opt_body opts = Some (JSON_stringify env v)"
    "JSON_parse env (JSON_stringify env v) = Inr v"
    "json_body r = (case req_body (fetch_call endpoint opts st) of
                      None \<Rightarrow> Inl e0 | Some b \<Rightarrow> JSON_parse env b)"
  then show "fst (request env endpoint opts st) = Inr v"
    by (simp add: request_ok read_body_def fetch_call_body)
next
  fix r d
  assume "fetch env (fetch_call_module endpoint opts st) = Inr r" "ok r" "json_body r = Inr d"
  then show "fst (request_module env endpoint opts st) = Inr d"
    by (simp add: request_module_def request_shared_ok)
next
  fix r e
  assume "fetch env (fetch_call_module endpoint opts st) = Inr r" "ok r" "json_body r = Inl e"
  then show "fst (request_module env endpoint opts st) = Inl e"
    by (simp add: request_module_def request_shared_ok)
next
  fix r e0
  assume "fetch env (fetch_call_module endpoint opts st) = Inr r" "ok r"
    "opt_body opts = Some (JSON_stringify env v)"
    "JSON_parse env (JSON_stringify env v) = Inr v"
    "json_body r = (case req_body (fetch_call_module endpoint opts st) of
                      None \<Rightarrow> Inl e0 | Some b \<Rightarrow> JSON_parse env b)"
  then show "fst (request_module env endpoint opts st) = Inr v"
    by (simp add: request_module_def request_shared_ok fetch_call_module_body)
qed

lemma echo_platform:
  "JSON_stringify echo v = ''{}''" "JSON_parse echo ''{}'' = Inr (JObj [])"
  "fetch echo req =
     Inr \<lparr>status = 200, content_type = Some ''application/json'',
          json_body = (case req_body req of
                         None \<Rightarrow> Inl (Failure ''SyntaxError'')
                       | Some b \<Rightarrow> JSON_parse echo b),
          text_body = (case req_body req of None \<Rightarrow> Inr [] | Some b \<Rightarrow> Inr b)\<rparr>"
  by (simp_all add: echo_def parse_empty_object_def split: option.splits)

theorem success_returns_body_witness:
  "ok (json_response 201 (JObj [(''_id'', JStr ''t1''), (''status'', JStr ''open'')])) \<and>
   declares_json (json_response 201 (JObj [(''_id'', JStr ''t1''), (''status'', JStr ''open'')])) \<and>
   fst (request (server (json_response 201 (JObj [(''_id'', JStr ''t1''), (''status'', JStr ''open'')])))
          ''/api/tasks'' get_opts (signed_in ''/pages/dashboard.html'')) =
     Inr (JObj [(''_id'', JStr ''t1''), (''status'', JStr ''open'')]) \<and>
   ok (text_response 200 ''pong'') \<and> \<not> declares_json (text_response 200 ''pong'') \<and>
   fst (request (server (text_response 200 ''pong'')) ''/api/tasks'' get_opts
          (signed_in ''/pages/dashboard.html'')) = Inr (JObj [(''message'', JStr ''pong'')]) \<and>
   opt_body (post_opts (JSON_stringify echo (JObj []))) = Some ''{}'' \<and>
   fst (request echo ''/api/tasks'' (post_opts (JSON_stringify echo (JObj [])))
          (signed_in ''/pages/dashboard.html'')) = Inr (JObj []) \<and>
   fst (request_module
          (server (json_response 201 (JObj [(''_id'', JStr ''t1''), (''status'', JStr ''open'')])))
          ''/api/tasks'' get_opts (signed_in_token ''/pages/dashboard.html'')) =
     Inr (JObj [(''_id'', JStr ''t1''), (''status'', JStr ''open'')]) \<and>
   fst (request_module echo ''/api/tasks'' (post_opts (JSON_stringify echo (JObj [])))
          (signed_in_token ''/pages/dashboard.html'')) = Inr (JObj [])"
proof -
  let ?j = "JObj [(''_id'', JStr ''t1''), (''status'', JStr ''open'')]"
  let ?p = "post_opts (JSON_stringify echo (JObj []))"
  have a: "ok (json_response 201 ?j)" "declares_json (json_response 201 ?j)"
    "json_body (json_response 201 ?j) = Inr ?j"
    by (simp_all add: ok_def json_response_def declares_json_def)
  have b: "ok (text_response 200 ''pong'')" "\<not> declares_json (text_response 200 ''pong'')"
    "text_body (text_response 200 ''pong'') = Inr ''pong''"
    by (simp_all add: ok_def text_response_def declares_json_def)
  have p: "opt_body ?p = Some ''{}''"
    by (simp add: post_opts_def echo_platform)
  have c: "fst (request echo ''/api/tasks'' ?p (signed_in ''/pages/dashboard.html'')) =
      Inr (JObj [])"
    using success_returns_body [of echo "''/api/tasks''" ?p
        "signed_in ''/pages/dashboard.html''" "JObj []"] p
    by (simp add: echo_platform ok_def declares_json_def fetch_call_body)
  have d: "fst (request_module echo ''/api/tasks'' ?p
                 (signed_in_token ''/pages/dashboard.html'')) = Inr (JObj [])"
    using success_returns_body [of echo "''/api/tasks''" ?p
        "signed_in_token ''/pages/dashboard.html''" "JObj []"] p
    by (simp add: echo_platform ok_def fetch_call_module_body)
  from success_returns_body [of "server (json_response 201 ?j)" "''/api/tasks''" get_opts
      "signed_in ''/pages/dashboard.html''"]
    success_returns_body [of "server (text_response 200 ''pong'')" "''/api/tasks''" get_opts
      "signed_in ''/pages/dashboard.html''"]
    success_returns_body [of "server (json_response 201 ?j)" "''/api/tasks''" get_opts
      "signed_in_token ''/pages/dashboard.html''"]
    a b c d p
  show ?thesis by (simp add: server_fetch)
qed

text \<open>The claim as written fails in unnamed/part_001 on a reply that is not JSON: it is
  not wrapped, the call rejects.\<close>

theorem text_reply_counterexample:
  "ok (text_response 200 ''pong'') \<and> \<not> declares_json (text_response 200 ''pong'') \<and>
   text_body (text_response 200 ''pong'') = Inr ''pong'' \<and>
   fst (request_module (server (text_response 200 ''pong'')) ''/api/tasks'' get_opts
          (signed_in_token ''/pages/dashboard.html'')) = Inl (Failure ''SyntaxError'')"
  by (simp add: request_module_def request_shared_def Let_def server_def text_response_def
      ok_def declares_json_def)

text \<open>
  C4, as the code has it: when a 401 was read, js/api.js leaves the navigation to the login
  page out on the paths \<^verbatim>\<open>/login.html\<close> and \<^verbatim>\<open>/register.html\<close> and requests it
  on every page that is not public; unnamed/part_001 requests it on every page.
\<close>

theorem unauthorized_redirect_rule:
  "(\<forall>r data. fetch env (fetch_call endpoint opts st) = Inr r \<and> status r = 401 \<and>
        read_body r = Inr data \<longrightarrow>
      (pathname st = ''/login.html'' \<or> pathname st = ''/register.html'' \<longrightarrow>
         href (snd (request env endpoint opts st)) = href st) \<and>
      (\<not> isPublicPage (pathname st) \<longrightarrow>
         href (snd (request env endpoint opts st)) = Some ''/pages/login.html'')) \<and>
   (\<forall>r data. fetch env (fetch_call_module endpoint opts st) = Inr r \<and> status r = 401 \<and>
        json_body r = Inr data \<longrightarrow>
      href (snd (request_module env endpoint opts st)) = Some ''/pages/login.html'')"
proof (intro conjI allI impI; (elim conjE)?)
  fix r data
  assume a: "fetch env (fetch_call endpoint opts st) = Inr r" "status r = 401"
    "read_body r = Inr data"
  show "href (snd (request env endpoint opts st)) = href st"
    if "pathname st = ''/login.html'' \<or> pathname st = ''/register.html''"
    using request_unauthorized [OF a] that by (auto simp add: on_unauthorized_href)
  show "href (snd (request env endpoint opts st)) = Some ''/pages/login.html''"
    if "\<not> isPublicPage (pathname st)"
    using request_unauthorized [OF a] that exact_pages_public
    by (auto simp add: on_unauthorized_href)
next
  fix r data
  assume a: "fetch env (fetch_call_module endpoint opts st) = Inr r" "status r = 401"
    "json_body r = Inr data"
  show "href (snd (request_module env endpoint opts st)) = Some ''/pages/login.html''"
    using request_shared_unauthorized [OF a] by (simp add: request_module_def)
qed

theorem unauthorized_redirect_rule_witness:
  "status (json_response 401 (JObj [])) = 401 \<and>
   pathname (signed_in ''/login.html'') = ''/login.html'' \<and>
   href (snd (request (server (json_response 401 (JObj []))) ''/api/auth/me'' get_opts
                (signed_in ''/login.html''))) = None \<and>
   \<not> isPublicPage (pathname (signed_in ''/pages/dashboard.html'')) \<and>
   href (snd (request (server (json_response 401 (JObj []))) ''/api/auth/me'' get_opts
                (signed_in ''/pages/dashboard.html''))) = Some ''/pages/login.html'' \<and>
   href (snd (request_module (server (json_response 401 (JObj []))) ''/api/auth/me'' get_opts
                (signed_in_token ''/pages/dashboard.html''))) = Some ''/pages/login.html''"
proof -
  let ?r = "json_response 401 (JObj [])"
  have s: "status ?r = 401"
    by (simp add: json_response_def)
  have n: "\<not> isPublicPage (pathname (signed_in ''/pages/dashboard.html''))"
    by (simp add: signed_in_storage dashboard_not_public)
  from unauthorized_redirect_rule [of "server ?r" "''/api/auth/me''" get_opts
      "signed_in ''/login.html''"]
    unauthorized_redirect_rule [of "server ?r" "''/api/auth/me''" get_opts
      "signed_in ''/pages/dashboard.html''"]
    unauthorized_redirect_rule [of "server ?r" "''/api/auth/me''" get_opts
      "signed_in_token ''/pages/dashboard.html''"] s n
  show ?thesis
    by (simp add: server_fetch signed_in_storage read_body_json_response
        json_body_json_response)
qed

text \<open>
  The claim as written fails in js/api.js on the site root, a page of the public list on
  which the navigation is requested all the same, and in unnamed/part_001 on the login
  page itself.
\<close>

theorem unauthorized_on_root_counterexample:
  "''/'' \<in> set publicPages \<and> isPublicPage (pathname (signed_in ''/'')) \<and>
   status (json_response 401 (JObj [])) = 401 \<and>
   href (snd (request (server (json_response 401 (JObj []))) ''/api/auth/me'' get_opts
                (signed_in ''/''))) = Some ''/pages/login.html'' \<and>
   ''/login.html'' \<in> set publicPages \<and>
   pathname (signed_in_token ''/login.html'') = ''/login.html'' \<and>
   href (snd (request_module (server (json_response 401 (JObj []))) ''/api/auth/me'' get_opts
                (signed_in_token ''/login.html''))) = Some ''/pages/login.html''"
proof -
  have s: "status (json_response 401 (JObj [])) = 401"
    by (simp add: json_response_def)
  have p: "''/'' \<in> set publicPages" "''/login.html'' \<in> set publicPages"
    by (simp_all add: publicPages_def)
  from request_unauthorized [OF server_fetch s read_body_json_response]
    request_shared_unauthorized [OF server_fetch s json_body_json_response] s p
    publicPages_isPublicPage [OF p(1)]
  show ?thesis
    by (simp add: on_unauthorized_href signed_in_storage signed_in_token_storage
        request_module_def)
qed

text \<open>On the login page as it is deployed, \<^verbatim>\<open>/pages/login.html\<close>, the comparison of
  js/api.js with \<^verbatim>\<open>/login.html\<close> does not hold either, and the page is sent to
  itself.\<close>

lemma unauthorized_on_deployed_login_page:
  "href (snd (request (server (json_response 401 (JObj []))) ''/api/auth/login'' get_opts
                login_visit)) = Some ''/pages/login.html''"
proof -
  have s: "status (json_response 401 (JObj [])) = 401"
    by (simp add: json_response_def)
  from request_unauthorized [OF server_fetch s read_body_json_response]
  show ?thesis by (simp add: on_unauthorized_href login_visit_def)
qed

text \<open>
  C7: a response whose status is outside 200 to 299 and is not 401 makes the request
  operation reject, and the storage, token and cached user included, is after the call what
  it was before.
\<close>

theorem other_failure_keeps_credentials:
  assumes "fetch env (fetch_call endpoint opts st) = Inr r"
    and "\<not> ok r" and "status r \<noteq> 401"
  shows "(\<exists>e. fst (request env endpoint opts st) = Inl e) \<and>
         localStorage (snd (request env endpoint opts st)) = localStorage st \<and>
         getToken (snd (request env endpoint opts st)) = getToken st \<and>
         getItem ''current_user'' (snd (request env endpoint opts st)) =
           getItem ''current_user'' st"
  using assms
  by (simp add: request_def Let_def getToken_def getItem_def split: sum.splits)

theorem other_failure_keeps_credentials_witness:
  "\<not> ok (json_response 404 (JObj [(''error'', JStr ''Task not found'')])) \<and>
   status (json_response 404 (JObj [(''error'', JStr ''Task not found'')])) \<noteq> 401 \<and>
   (\<exists>e. fst (request (server (json_response 404 (JObj [(''error'', JStr ''Task not found'')])))
              ''/api/tasks/t9'' get_opts (signed_in ''/pages/dashboard.html'')) = Inl e) \<and>
   getToken (snd (request (server (json_response 404 (JObj [(''error'', JStr ''Task not found'')])))
              ''/api/tasks/t9'' get_opts (signed_in ''/pages/dashboard.html''))) = Some ''abc'' \<and>
   getItem ''current_user''
     (snd (request (server (json_response 404 (JObj [(''error'', JStr ''Task not found'')])))
              ''/api/tasks/t9'' get_opts (signed_in ''/pages/dashboard.html''))) = Some ''{}''"
proof -
  let ?r = "json_response 404 (JObj [(''error'', JStr ''Task not found'')])"
  have a: "\<not> ok ?r" "status ?r \<noteq> 401"
    by (simp_all add: ok_def json_response_def)
  from other_failure_keeps_credentials [OF server_fetch a] a signed_in_storage
  show ?thesis by simp
qed

text \<open>The same holds of \<^verbatim>\<open>request\<close> in unnamed/part_001 and unnamed/part_002.\<close>

lemma request_shared_other_failure:
  assumes "fetch env (fetch_call_module endpoint opts st) = Inr r"
    and "\<not> ok r" and "status r \<noteq> 401"
  shows "(\<exists>e. fst (request_shared thrown_by env endpoint opts st) = Inl e) \<and>
         localStorage (snd (request_shared thrown_by env endpoint opts st)) = localStorage st"
  using assms by (simp add: request_shared_def Let_def split: sum.splits)

lemma new_Error_string: "to_string v = Inr s \<Longrightarrow> new_Error v = Error s"
  by (simp add: new_Error_def)

lemma new_Error_text: "new_Error (JStr s) = Error s"
  by (simp add: new_Error_def)

lemma get_prop_not_null: "data \<noteq> JNull \<Longrightarrow> \<exists>v. get_prop data k = Inr v"
  by (cases data) simp_all

lemma not_ok_status: "\<not> ok (json_response 404 v)" "\<not> ok (json_response 403 v)"
  "\<not> ok (json_response 400 v)" "\<not> ok (json_response 500 v)" "\<not> ok (text_response 500 t)"
  by (simp_all add: ok_def json_response_def text_response_def)

text \<open>
  C8, as the code has it: when the body of a response that is not ok was read and is not
  \<^verbatim>\<open>null\<close>, the error carries the string of the first truthy field in the order of
  the file, for a field value that has a string: in js/api.js \<^verbatim>\<open>message\<close>, then
  \<^verbatim>\<open>error\<close>, else the text \<^verbatim>\<open>HTTP error! status: \<close> followed by the status in
  decimal; in unnamed/part_001 \<^verbatim>\<open>msg\<close>, then \<^verbatim>\<open>message\<close>, else the text
  \<^verbatim>\<open>API Error\<close>; in unnamed/part_002 \<^verbatim>\<open>msg\<close>, else \<^verbatim>\<open>API Error\<close>.
\<close>

theorem failure_message_rule:
  "(\<forall>r data m er.
      fetch env (fetch_call endpoint opts st) = Inr r \<and> \<not> ok r \<and> read_body r = Inr data \<and>
      get_prop data ''message'' = Inr m \<and> get_prop data ''error'' = Inr er \<longrightarrow>
      (\<forall>v s. m = Some v \<and> truthy v \<and> to_string v = Inr s \<longrightarrow>
         fst (request env endpoint opts st) = Inl (Error s)) \<and>
      (\<not> truthy_opt m \<longrightarrow>
         (\<forall>v s. er = Some v \<and> truthy v \<and> to_string v = Inr s \<longrightarrow>
            fst (request env endpoint opts st) = Inl (Error s))) \<and>
      (\<not> truthy_opt m \<and> \<not> truthy_opt er \<longrightarrow>
         fst (request env endpoint opts st) =
           Inl (Error (''HTTP error! status: '' @ string_of_nat (status r))))) \<and>
   (\<forall>r data ms m.
      fetch env (fetch_call_module endpoint opts st) = Inr r \<and> \<not> ok r \<and>
      json_body r = Inr data \<and>
      get_prop data ''msg'' = Inr ms \<and> get_prop data ''message'' = Inr m \<longrightarrow>
      (\<forall>v s. ms = Some v \<and> truthy v \<and> to_string v = Inr s \<longrightarrow>
         fst (request_module env endpoint opts st) = Inl (Error s)) \<and>
      (\<not> truthy_opt ms \<longrightarrow>
         (\<forall>v s. m = Some v \<and> truthy v \<and> to_string v = Inr s \<longrightarrow>
            fst (request_module env endpoint opts st) = Inl (Error s))) \<and>
      (\<not> truthy_opt ms \<and> \<not> truthy_opt m \<longrightarrow>
         fst (request_module env endpoint opts st) = Inl (Error ''API Error''))) \<and>
   (\<forall>r data ms.
      fetch env (fetch_call_module endpoint opts st) = Inr r \<and> \<not> ok r \<and>
      json_body r = Inr data \<and> get_prop data ''msg'' = Inr ms \<longrightarrow>
      (\<forall>v s. ms = Some v \<and> truthy v \<and> to_string v = Inr s \<longrightarrow>
         fst (request_exported env endpoint opts st) = Inl (Error s)) \<and>
      (\<not> truthy_opt ms \<longrightarrow>
         fst (request_exported env endpoint opts st) = Inl (Error ''API Error'')))"
proof (intro conjI allI impI; (elim conjE)?)
  fix r data m er
  assume a: "fetch env (fetch_call endpoint opts st) = Inr r" "\<not> ok r" "read_body r = Inr data"
    and g: "get_prop data ''message'' = Inr m" "get_prop data ''error'' = Inr er"
  note f = request_failure [OF a]
  show "fst (request env endpoint opts st) = Inl (Error s)"
    if "m = Some v" "truthy v" "to_string v = Inr s" for v s
    using f g that by (simp add: thrown_def new_Error_string)
  show "fst (request env endpoint opts st) = Inl (Error s)"
    if "\<not> truthy_opt m" "er = Some v" "truthy v" "to_string v = Inr s" for v s
    using f g that by (simp add: thrown_def new_Error_string)
  show "fst (request env endpoint opts st) =
      Inl (Error (''HTTP error! status: '' @ string_of_nat (status r)))"
    if "\<not> truthy_opt m" "\<not> truthy_opt er"
    using f g that by (simp add: thrown_def new_Error_text)
next
  fix r data ms m
  assume a: "fetch env (fetch_call_module endpoint opts st) = Inr r" "\<not> ok r"
    "json_body r = Inr data"
    and g: "get_prop data ''msg'' = Inr ms" "get_prop data ''message'' = Inr m"
  note f = request_shared_failure [OF a, of thrown_module]
  show "fst (request_module env endpoint opts st) = Inl (Error s)"
    if "ms = Some v" "truthy v" "to_string v = Inr s" for v s
    using f g that by (simp add: request_module_def thrown_module_def new_Error_string)
  show "fst (request_module env endpoint opts st) = Inl (Error s)"
    if "\<not> truthy_opt ms" "m = Some v" "truthy v" "to_string v = Inr s" for v s
    using f g that by (simp add: request_module_def thrown_module_def new_Error_string)
  show "fst (request_module env endpoint opts st) = Inl (Error ''API Error'')"
    if "\<not> truthy_opt ms" "\<not> truthy_opt m"
    using f g that by (simp add: request_module_def thrown_module_def new_Error_text)
next
  fix r data ms
  assume a: "fetch env (fetch_call_module endpoint opts st) = Inr r" "\<not> ok r"
    "json_body r = Inr data"
    and g: "get_prop data ''msg'' = Inr ms"
  note f = request_shared_failure [OF a, of thrown_exported]
  show "fst (request_exported env endpoint opts st) = Inl (Error s)"
    if "ms = Some v" "truthy v" "to_string v = Inr s" for v s
    using f g that by (simp add: request_exported_def thrown_exported_def new_Error_string)
  show "fst (request_exported env endpoint opts st) = Inl (Error ''API Error'')"
    if "\<not> truthy_opt ms"
    using f g that by (simp add: request_exported_def thrown_exported_def new_Error_text)
qed

theorem failure_message_rule_witness:
  "fst (request (server (json_response 404 (JObj [(''message'', JStr ''Task not found''),
                                                   (''error'', JStr ''E404'')])))
          ''/api/tasks/t9'' get_opts (signed_in ''/pages/dashboard.html'')) =
     Inl (Error ''Task not found'') \<and>
   fst (request (server (json_response 403 (JObj [(''error'', JStr ''Forbidden'')])))
          ''/api/tasks/t9'' get_opts (signed_in ''/pages/dashboard.html'')) =
     Inl (Error ''Forbidden'') \<and>
   fst (request (server (text_response 500 [])) ''/api/tasks/t9'' get_opts
          (signed_in ''/pages/dashboard.html'')) = Inl (Error ''HTTP error! status: 500'') \<and>
   fst (request_module (server (json_response 404 (JObj [(''message'', JStr ''Task not found''),
                                                          (''msg'', JStr ''E404'')])))
          ''/api/tasks/t9'' get_opts (signed_in_token ''/pages/dashboard.html'')) =
     Inl (Error ''E404'') \<and>
   fst (request_module (server (json_response 403 (JObj [(''message'', JStr ''Forbidden'')])))
          ''/api/tasks/t9'' get_opts (signed_in_token ''/pages/dashboard.html'')) =
     Inl (Error ''Forbidden'') \<and>
   fst (request_module (server (json_response 500 (JObj []))) ''/api/tasks/t9'' get_opts
          (signed_in_token ''/pages/dashboard.html'')) = Inl (Error ''API Error'') \<and>
   fst (request_exported (server (json_response 400 (JObj [(''msg'', JStr ''Invalid token'')])))
          ''/api/tasks/t9'' get_opts (signed_in_token ''/pages/dashboard.html'')) =
     Inl (Error ''Invalid token'') \<and>
   fst (request_exported (server (json_response 404 (JObj [(''message'', JStr ''Task not found'')])))
          ''/api/tasks/t9'' get_opts (signed_in_token ''/pages/dashboard.html'')) =
     Inl (Error ''API Error'')"
proof -
  let ?e = "''/api/tasks/t9''"
  let ?s = "signed_in ''/pages/dashboard.html''"
  let ?t = "signed_in_token ''/pages/dashboard.html''"
  note facts = server_fetch not_ok_status read_body_json_response read_body_text_response
    json_body_json_response
  have n: "string_of_nat (status (text_response 500 [])) = ''500''"
    by (simp add: text_response_def string_of_nat.simps)
  have w1: "fst (request (server (json_response 404 (JObj [(''message'', JStr ''Task not found''),
      (''error'', JStr ''E404'')]))) ?e get_opts ?s) = Inl (Error ''Task not found'')"
    using failure_message_rule [of "server (json_response 404 (JObj [(''message'',
      JStr ''Task not found''), (''error'', JStr ''E404'')]))" ?e get_opts ?s]
    by (simp add: facts)
  have w2: "fst (request (server (json_response 403 (JObj [(''error'', JStr ''Forbidden'')])))
      ?e get_opts ?s) = Inl (Error ''Forbidden'')"
    using failure_message_rule [of "server (json_response 403 (JObj [(''error'',
      JStr ''Forbidden'')]))" ?e get_opts ?s]
    by (simp add: facts)
  have w3: "fst (request (server (text_response 500 [])) ?e get_opts ?s) =
      Inl (Error ''HTTP error! status: 500'')"
    using failure_message_rule [of "server (text_response 500 [])" ?e get_opts ?s] n
    by (simp add: facts)
  have w4: "fst (request_module (server (json_response 404 (JObj [(''message'',
      JStr ''Task not found''), (''msg'', JStr ''E404'')]))) ?e get_opts ?t) = Inl (Error ''E404'')"
    using failure_message_rule [of "server (json_response 404 (JObj [(''message'',
      JStr ''Task not found''), (''msg'', JStr ''E404'')]))" ?e get_opts ?t]
    by (simp add: facts)
  have w5: "fst (request_module (server (json_response 403 (JObj [(''message'',
      JStr ''Forbidden'')]))) ?e get_opts ?t) = Inl (Error ''Forbidden'')"
    using failure_message_rule [of "server (json_response 403 (JObj [(''message'',
      JStr ''Forbidden'')]))" ?e get_opts ?t]
    by (simp add: facts)
  have w6: "fst (request_module (server (json_response 500 (JObj []))) ?e get_opts ?t) =
      Inl (Error ''API Error'')"
    using failure_message_rule [of "server (json_response 500 (JObj []))" ?e get_opts ?t]
    by (simp add: facts)
  have w7: "fst (request_exported (server (json_response 400 (JObj [(''msg'',
      JStr ''Invalid token'')]))) ?e get_opts ?t) = Inl (Error ''Invalid token'')"
    using failure_message_rule [of "server (json_response 400 (JObj [(''msg'',
      JStr ''Invalid token'')]))" ?e get_opts ?t]
    by (simp add: facts)
  have w8: "fst (request_exported (server (json_response 404 (JObj [(''message'',
      JStr ''Task not found'')]))) ?e get_opts ?t) = Inl (Error ''API Error'')"
    using failure_message_rule [of "server (json_response 404 (JObj [(''message'',
      JStr ''Task not found'')]))" ?e get_opts ?t]
    by (simp add: facts)
  from w1 w2 w3 w4 w5 w6 w7 w8 show ?thesis by simp
qed

text \<open>
  The claim as written fails in js/api.js on a body whose \<^verbatim>\<open>message\<close> is the empty
  string and whose text is under \<^verbatim>\<open>msg\<close>: the error carries neither of them. It
  fails in unnamed/part_001, where \<^verbatim>\<open>msg\<close> goes before \<^verbatim>\<open>message\<close>, and in
  unnamed/part_002, where \<^verbatim>\<open>message\<close> is not read; in both the last resort is a text
  without the status.
\<close>

theorem failure_message_counterexample:
  "get_prop (JObj [(''message'', JStr []), (''msg'', JStr ''Invalid token'')]) ''message'' =
     Inr (Some (JStr [])) \<and>
   get_prop (JObj [(''message'', JStr []), (''msg'', JStr ''Invalid token'')]) ''msg'' =
     Inr (Some (JStr ''Invalid token'')) \<and>
   fst (request (server (json_response 400
                   (JObj [(''message'', JStr []), (''msg'', JStr ''Invalid token'')])))
          ''/api/tasks'' get_opts (signed_in ''/pages/dashboard.html'')) =
     Inl (Error ''HTTP error! status: 400'') \<and>
   fst (request_module (server (json_response 404
                   (JObj [(''message'', JStr ''Task not found''), (''msg'', JStr ''E404'')])))
          ''/api/tasks/t9'' get_opts (signed_in_token ''/pages/dashboard.html'')) =
     Inl (Error ''E404'') \<and>
   fst (request_module (server (json_response 500 (JObj []))) ''/api/tasks'' get_opts
          (signed_in_token ''/pages/dashboard.html'')) = Inl (Error ''API Error'') \<and>
   fst (request_exported (server (json_response 404
                   (JObj [(''message'', JStr ''Task not found'')])))
          ''/api/tasks/t9'' get_opts (signed_in_token ''/pages/dashboard.html'')) =
     Inl (Error ''API Error'')"
proof -
  have n: "string_of_nat 400 = ''400''"
    by (simp add: string_of_nat.simps)
  have a: "fst (request (server (json_response 400
                   (JObj [(''message'', JStr []), (''msg'', JStr ''Invalid token'')])))
          ''/api/tasks'' get_opts (signed_in ''/pages/dashboard.html'')) =
     Inl (Error ''HTTP error! status: 400'')"
    using request_failure [OF server_fetch not_ok_status(3) read_body_json_response] n
    by (simp add: thrown_def new_Error_def json_response_def)
  have b: "fst (request_module (server (json_response 404
                   (JObj [(''message'', JStr ''Task not found''), (''msg'', JStr ''E404'')])))
          ''/api/tasks/t9'' get_opts (signed_in_token ''/pages/dashboard.html'')) =
     Inl (Error ''E404'')"
    using request_shared_failure [OF server_fetch not_ok_status(1) json_body_json_response]
    by (simp add: request_module_def thrown_module_def new_Error_def)
  have c: "fst (request_module (server (json_response 500 (JObj []))) ''/api/tasks'' get_opts
          (signed_in_token ''/pages/dashboard.html'')) = Inl (Error ''API Error'')"
    using request_shared_failure [OF server_fetch not_ok_status(4) json_body_json_response]
    by (simp add: request_module_def thrown_module_def new_Error_def)
  have d: "fst (request_exported (server (json_response 404
                   (JObj [(''message'', JStr ''Task not found'')])))
          ''/api/tasks/t9'' get_opts (signed_in_token ''/pages/dashboard.html'')) =
     Inl (Error ''API Error'')"
    using request_shared_failure [OF server_fetch not_ok_status(1) json_body_json_response]
    by (simp add: request_exported_def thrown_exported_def new_Error_def)
  from a b c d show ?thesis by simp
qed

text \<open>Two bodies are outside the rule. A body that is \<^verbatim>\<open>null\<close> makes the read of its
  field throw, and a field that is an object with a \<^verbatim>\<open>toString\<close> property of its own
  has no string; the caller gets the exception in place of a message.\<close>

lemma failure_with_null_body:
  "fst (request (server (json_response 500 JNull)) ''/api/tasks'' get_opts
          (signed_in ''/pages/dashboard.html'')) = Inl TypeError"
  using request_failure [OF server_fetch not_ok_status(4) read_body_json_response]
  by (simp add: thrown_def)

lemma failure_with_unprintable_message:
  "fst (request (server (json_response 500
                   (JObj [(''message'', JObj [(''toString'', JNum ''1'')])])))
          ''/api/tasks'' get_opts (signed_in ''/pages/dashboard.html'')) = Inl TypeError"
  using request_failure [OF server_fetch not_ok_status(4) read_body_json_response]
  by (simp add: thrown_def new_Error_def)

section \<open>Properties of the authentication operations\<close>

lemma keep_session_token:
  assumes "map_of ps ''token'' = Some (JStr t)" and "t \<noteq> []"
  shows "fst (keep_session env (JObj ps) st) = Inr (JObj ps)"
    and "getToken (snd (keep_session env (JObj ps) st)) = Some t"
    and "map_of ps ''user'' = Some u \<Longrightarrow> truthy u \<Longrightarrow>
         getItem ''current_user'' (snd (keep_session env (JObj ps) st)) =
           Some (JSON_stringify env u)"
    and "fetched (snd (keep_session env (JObj ps) st)) = fetched st"
  using assms
  by (simp_all add: keep_session_def Let_def setToken_def setCurrentUser_def setItem_def
      getToken_def getItem_def)

lemma fetch_call_authorization:
  assumes "getToken st = Some t" and "t \<noteq> []"
  shows "req_headers (fetch_call endpoint opts st) ''Authorization'' = Some (''Bearer '' @ t)"
  using assms by (simp add: fetch_call_def Let_def)

lemma fetch_call_module_authorization:
  assumes "getItem ''token'' st = Some t" and "t \<noteq> []"
  shows "req_headers (fetch_call_module endpoint opts st) ''Authorization'' = Some t"
  using assms by (simp add: fetch_call_module_def Let_def)

lemma getProfile_fetched:
  "fetched (snd (getProfile env st)) =
     fetched st @ [fetch_call ''/api/auth/me''
       \<lparr>opt_method = Some ''GET'', opt_body = None, opt_headers = Map.empty\<rparr> st]"
proof -
  let ?opts = "\<lparr>opt_method = Some ''GET'', opt_body = None, opt_headers = Map.empty\<rparr>"
  obtain res st1 where r: "request env ''/api/auth/me'' ?opts st = (res, st1)"
    by (cases "request env ''/api/auth/me'' ?opts st") blast
  with fetched_request [of env "''/api/auth/me''" ?opts st]
  have f: "fetched st1 = fetched st @ [fetch_call ''/api/auth/me'' ?opts st]"
    by simp
  show ?thesis
    using r f
    by (simp add: getProfile_def Let_def setCurrentUser_def setItem_def split: sum.splits)
qed

lemma getMe_fetched:
  "fetched (snd (getMe env st)) =
     fetched st @ [fetch_call_module ''/api/auth/me''
       \<lparr>opt_method = None, opt_body = None, opt_headers = Map.empty\<rparr> st]"
  by (simp add: getMe_def request_exported_def fetched_request_shared)

lemma loginUser_token:
  assumes "fetch env (fetch_call_module ''/api/auth/login''
             \<lparr>opt_method = Some ''POST'', opt_body = Some (JSON_stringify env payload),
              opt_headers = Map.empty\<rparr> st) = Inr r"
    and "ok r" and "json_body r = Inr (JObj ps)"
    and "map_of ps ''token'' = Some (JStr t)" and "t \<noteq> []"
  shows "loginUser env payload st =
           (Inr (JObj ps),
            setItem ''token'' t
              (st\<lparr>fetched := fetched st @ [fetch_call_module ''/api/auth/login''
                 \<lparr>opt_method = Some ''POST'', opt_body = Some (JSON_stringify env payload),
                  opt_headers = Map.empty\<rparr> st]\<rparr>))"
  using request_shared_ok [OF assms(1,2), of thrown_exported] assms(3,4,5)
  by (simp add: loginUser_def request_exported_def setToken_token_def)

text \<open>
  C5, as the code has it: when the response to \<^verbatim>\<open>auth.login\<close> or
  \<^verbatim>\<open>auth.register\<close> of js/api.js is ok and its body carries a token, a string that is
  not empty, the operation returns that body with the token stored, and with the user stored
  as well when the body carries one; the profile call made right after it sends the stored
  token in its authorization header. \<^verbatim>\<open>loginUser\<close> of unnamed/part_002 returns the body
  with the token stored, and \<^verbatim>\<open>getMe\<close> right after it sends that token.
\<close>

theorem login_and_register_keep_token:
  assumes "map_of ps ''token'' = Some (JStr t)" and "t \<noteq> []"
  shows "(\<forall>operation endpoint r.
            (operation, endpoint) \<in>
              {(login, ''/api/auth/login''), (register, ''/api/auth/register'')} \<and>
            fetch env (fetch_call endpoint
              \<lparr>opt_method = Some ''POST'', opt_body = Some (JSON_stringify env payload),
               opt_headers = Map.empty\<rparr> st) = Inr r \<and>
            ok r \<and> read_body r = Inr (JObj ps) \<longrightarrow>
            fst (operation env payload st) = Inr (JObj ps) \<and>
            getToken (snd (operation env payload st)) = Some t \<and>
            (\<forall>u. map_of ps ''user'' = Some u \<and> truthy u \<longrightarrow>
               getItem ''current_user'' (snd (operation env payload st)) =
                 Some (JSON_stringify env u)) \<and>
            req_headers (last (fetched (snd (getProfile env (snd (operation env payload st))))))
              ''Authorization'' = Some (''Bearer '' @ t)) \<and>
         (\<forall>r. fetch env (fetch_call_module ''/api/auth/login''
              \<lparr>opt_method = Some ''POST'', opt_body = Some (JSON_stringify env payload),
               opt_headers = Map.empty\<rparr> st) = Inr r \<and>
            ok r \<and> json_body r = Inr (JObj ps) \<longrightarrow>
            fst (loginUser env payload st) = Inr (JObj ps) \<and>
            getItem ''token'' (snd (loginUser env payload st)) = Some t \<and>
            req_headers (last (fetched (snd (getMe env (snd (loginUser env payload st))))))
              ''Authorization'' = Some t)"
proof (intro conjI allI impI; (elim conjE)?)
  fix operation :: "platform \<Rightarrow> json \<Rightarrow> browser \<Rightarrow> (js_error + json) \<times> browser"
  fix endpoint r
  let ?opts = "\<lparr>opt_method = Some ''POST'', opt_body = Some (JSON_stringify env payload),
                opt_headers = Map.empty\<rparr>"
  let ?st1 = "st\<lparr>fetched := fetched st @ [fetch_call endpoint ?opts st]\<rparr>"
  let ?st2 = "snd (operation env payload st)"
  assume m: "(operation, endpoint) \<in>
      {(login, ''/api/auth/login''), (register, ''/api/auth/register'')}"
    and f: "fetch env (fetch_call endpoint ?opts st) = Inr r" and k: "ok r"
    and b: "read_body r = Inr (JObj ps)"
  have req: "request env endpoint ?opts st = (Inr (JObj ps), ?st1)"
    using request_ok [OF f k] b by simp
  have op: "operation env payload st = keep_session env (JObj ps) ?st1"
    using m req by (auto simp add: login_def register_def)
  note kept = keep_session_token [where env = env and st = ?st1, OF assms]
  show "fst (operation env payload st) = Inr (JObj ps)"
    by (simp add: op kept(1))
  show tok: "getToken ?st2 = Some t"
    by (simp add: op kept(2))
  show "getItem ''current_user'' ?st2 = Some (JSON_stringify env u)"
    if "map_of ps ''user'' = Some u" "truthy u" for u
    using that by (simp add: op kept(3))
  have "last (fetched (snd (getProfile env ?st2))) =
      fetch_call ''/api/auth/me''
        \<lparr>opt_method = Some ''GET'', opt_body = None, opt_headers = Map.empty\<rparr> ?st2"
    by (simp add: getProfile_fetched)
  then show "req_headers (last (fetched (snd (getProfile env ?st2)))) ''Authorization'' =
      Some (''Bearer '' @ t)"
    by (simp add: fetch_call_authorization [OF tok assms(2)])
next
  fix r
  let ?opts = "\<lparr>opt_method = Some ''POST'', opt_body = Some (JSON_stringify env payload),
                opt_headers = Map.empty\<rparr>"
  let ?st2 = "snd (loginUser env payload st)"
  assume f: "fetch env (fetch_call_module ''/api/auth/login'' ?opts st) = Inr r"
    and k: "ok r" and b: "json_body r = Inr (JObj ps)"
  from loginUser_token [OF f k b assms]
  have l: "loginUser env payload st =
      (Inr (JObj ps),
       setItem ''token'' t
         (st\<lparr>fetched := fetched st @ [fetch_call_module ''/api/auth/login'' ?opts st]\<rparr>))"
    by simp
  show "fst (loginUser env payload st) = Inr (JObj ps)"
    by (simp add: l)
  show tok: "getItem ''token'' ?st2 = Some t"
    by (simp add: l setItem_def getItem_def)
  have "last (fetched (snd (getMe env ?st2))) =
      fetch_call_module ''/api/auth/me''
        \<lparr>opt_method = None, opt_body = None, opt_headers = Map.empty\<rparr> ?st2"
    by (simp add: getMe_fetched)
  then show "req_headers (last (fetched (snd (getMe env ?st2)))) ''Authorization'' = Some t"
    by (simp add: fetch_call_module_authorization [OF tok assms(2)])
qed

theorem login_and_register_keep_token_witness:
  "fst (login (server session_response) (JObj []) login_visit) =
     Inr (JObj [(''token'', JStr ''jwt''), (''user'', JObj [])]) \<and>
   getToken login_visit = None \<and>
   getToken (snd (login (server session_response) (JObj []) login_visit)) = Some ''jwt'' \<and>
   getItem ''current_user'' (snd (login (server session_response) (JObj []) login_visit)) =
     Some ''{}'' \<and>
   req_headers
     (last (fetched (snd (getProfile (server session_response)
        (snd (login (server session_response) (JObj []) login_visit))))))
     ''Authorization'' = Some ''Bearer jwt'' \<and>
   getToken (snd (register (server session_response) (JObj []) login_visit)) = Some ''jwt'' \<and>
   req_headers
     (last (fetched (snd (getProfile (server session_response)
        (snd (register (server session_response) (JObj []) login_visit))))))
     ''Authorization'' = Some ''Bearer jwt'' \<and>
   getItem ''token'' login_visit = None \<and>
   getItem ''token'' (snd (loginUser (server session_response) (JObj []) login_visit)) =
     Some ''jwt'' \<and>
   req_headers
     (last (fetched (snd (getMe (server session_response)
        (snd (loginUser (server session_response) (JObj []) login_visit))))))
     ''Authorization'' = Some ''jwt''"
proof -
  let ?ps = "[(''token'', JStr ''jwt''), (''user'', JObj [])]"
  have k: "ok session_response"
    by (simp add: session_response_def json_response_def ok_def)
  have d: "read_body session_response = Inr (JObj ?ps)"
    "json_body session_response = Inr (JObj ?ps)"
    by (simp_all add: session_response_def read_body_json_response json_body_json_response)
  have t: "map_of ?ps ''token'' = Some (JStr ''jwt'')" "''jwt'' \<noteq> []"
    by simp_all
  have s: "JSON_stringify (server session_response) (JObj []) = ''{}''"
    by (simp add: server_def)
  have g: "getToken login_visit = None" "getItem ''token'' login_visit = None"
    by (simp_all add: login_visit_def getToken_def getItem_def)
  note inst = login_and_register_keep_token [OF t, of "server session_response" "JObj []"
      login_visit]
  have a: "fst (login (server session_response) (JObj []) login_visit) = Inr (JObj ?ps) \<and>
      getToken (snd (login (server session_response) (JObj []) login_visit)) = Some ''jwt'' \<and>
      getItem ''current_user'' (snd (login (server session_response) (JObj []) login_visit)) =
        Some ''{}'' \<and>
      req_headers (last (fetched (snd (getProfile (server session_response)
        (snd (login (server session_response) (JObj []) login_visit))))))
        ''Authorization'' = Some ''Bearer jwt''"
    using inst [THEN conjunct1, THEN spec, THEN spec, THEN spec, of login "''/api/auth/login''"
        session_response] k d s
    by (simp add: server_fetch)
  have b: "getToken (snd (register (server session_response) (JObj []) login_visit)) =
        Some ''jwt'' \<and>
      req_headers (last (fetched (snd (getProfile (server session_response)
        (snd (register (server session_response) (JObj []) login_visit))))))
        ''Authorization'' = Some ''Bearer jwt''"
    using inst [THEN conjunct1, THEN spec, THEN spec, THEN spec, of register
        "''/api/auth/register''" session_response] k d s
    by (simp add: server_fetch)
  have c: "getItem ''token'' (snd (loginUser (server session_response) (JObj []) login_visit)) =
        Some ''jwt'' \<and>
      req_headers (last (fetched (snd (getMe (server session_response)
        (snd (loginUser (server session_response) (JObj []) login_visit))))))
        ''Authorization'' = Some ''jwt''"
    using inst [THEN conjunct2, THEN spec, of session_response] k d
    by (simp add: server_fetch)
  from a b c g show ?thesis by simp
qed

text \<open>
  The claim as written fails in unnamed/part_002: \<^verbatim>\<open>loginUser\<close> stores no user
  although the body carries one, and \<^verbatim>\<open>registerUser\<close> hands the body on and stores
  nothing, not even the token.
\<close>

theorem exported_login_counterexample:
  "ok session_response \<and>
   json_body session_response = Inr (JObj [(''token'', JStr ''jwt''), (''user'', JObj [])]) \<and>
   fst (loginUser (server session_response) (JObj []) login_visit) =
     Inr (JObj [(''token'', JStr ''jwt''), (''user'', JObj [])]) \<and>
   getItem ''current_user'' (snd (loginUser (server session_response) (JObj []) login_visit)) =
     None \<and>
   fst (registerUser (server session_response) (JObj []) login_visit) =
     Inr (JObj [(''token'', JStr ''jwt''), (''user'', JObj [])]) \<and>
   getItem ''token'' (snd (registerUser (server session_response) (JObj []) login_visit)) =
     None \<and>
   getItem ''current_user'' (snd (registerUser (server session_response) (JObj []) login_visit)) =
     None"
proof -
  let ?ps = "[(''token'', JStr ''jwt''), (''user'', JObj [])]"
  have k: "ok session_response"
    by (simp add: session_response_def json_response_def ok_def)
  have d: "json_body session_response = Inr (JObj ?ps)"
    by (simp add: session_response_def json_body_json_response)
  have t: "map_of ?ps ''token'' = Some (JStr ''jwt'')" "''jwt'' \<noteq> []"
    by simp_all
  from loginUser_token [OF server_fetch k d t]
    request_shared_ok [OF server_fetch k, of thrown_exported] k d
  show ?thesis
    by (simp add: registerUser_def request_exported_def setItem_def getItem_def login_visit_def)
qed

text \<open>
  C9, as the code has it: logging out removes the token, requests the navigation to the
  login page and calls \<^verbatim>\<open>fetch\<close> not once; nothing in it can fail. \<^verbatim>\<open>auth.logout\<close>
  of js/api.js removes the cached user as well, that of unnamed/part_001 leaves it.
\<close>

theorem logout_is_local:
  "getToken (logout st) = None \<and> getItem ''current_user'' (logout st) = None \<and>
   href (logout st) = Some ''/pages/login.html'' \<and> fetched (logout st) = fetched st \<and>
   pathname (logout st) = pathname st \<and>
   getItem ''token'' (logout_module st) = None \<and>
   getItem ''current_user'' (logout_module st) = getItem ''current_user'' st \<and>
   href (logout_module st) = Some ''/pages/login.html'' \<and>
   fetched (logout_module st) = fetched st \<and> pathname (logout_module st) = pathname st"
  by (simp add: logout_def logout_module_def Let_def getToken_def getItem_def removeToken_def
      removeCurrentUser_def clearToken_def removeItem_def)

text \<open>The claim as written fails in unnamed/part_001, where the cached user outlives the
  logout.\<close>

theorem logout_module_counterexample:
  "getItem ''current_user'' (signed_in_token ''/pages/dashboard.html'') = Some ''{}'' \<and>
   getItem ''current_user'' (logout_module (signed_in_token ''/pages/dashboard.html'')) =
     Some ''{}''"
  by (simp add: logout_module_def clearToken_def removeItem_def getItem_def signed_in_token_def)

section \<open>The guard on a protected page\<close>


end
